theory Spec2Isabelle
  imports Main
begin

section \<open>HDF5 error codes and the exception hierarchy of h5e.pyx\<close>

text \<open>
  The major and minor error codes are constants of the HDF5 library; their declarations
  live in a definitions file that is not among the sources at hand. They are the members
  of the library's two enumerations, so each constant that \<^verbatim>\<open>h5e.pyx\<close> names is a
  constructor of its own, and one further constructor stands for every code the module
  does not name.
\<close>

datatype H5E_major_t =
    H5E_ARGS | H5E_RESOURCE | H5E_INTERNAL | H5E_FILE | H5E_IO | H5E_FUNC | H5E_ATOM
  | H5E_CACHE | H5E_BTREE | H5E_SYM | H5E_HEAP | H5E_OHDR | H5E_DATATYPE | H5E_DATASPACE
  | H5E_DATASET | H5E_STORAGE | H5E_PLIST | H5E_ATTR | H5E_PLINE | H5E_EFL
  | H5E_REFERENCE | H5E_VFL | H5E_TST | H5E_RS | H5E_ERROR | H5E_SLIST
  | H5E_MAJOR_OTHER int

datatype H5E_minor_t =
    H5E_SEEKERROR | H5E_READERROR | H5E_WRITEERROR | H5E_CLOSEERROR | H5E_OVERFLOW
  | H5E_FCNTL | H5E_NOFILTER | H5E_CALLBACK | H5E_CANAPPLY | H5E_SETLOCAL
  | H5E_NOENCODER | H5E_FILEEXISTS | H5E_FILEOPEN | H5E_NOTHDF5 | H5E_BADFILE
  | H5E_BADATOM | H5E_BADGROUP | H5E_BADSELECT | H5E_UNINITIALIZED | H5E_UNSUPPORTED
  | H5E_NOTFOUND | H5E_CANTINSERT | H5E_BADTYPE | H5E_BADRANGE | H5E_BADVALUE
  | H5E_EXISTS | H5E_CANTCONVERT | H5E_CANTINIT | H5E_SYSERRSTR
  | H5E_MINOR_OTHER int

text \<open>The classes derived from \<^verbatim>\<open>H5Error\<close>, one per major code, and \<^verbatim>\<open>H5Error\<close> itself.\<close>

datatype h5_class =
    H5Error | ArgsError | ResourceError | InternalError | FileError | LowLevelIOError
  | FuncError | AtomError | CacheError | BtreeError | SymbolError | HeapError
  | ObjectHeaderError | DatatypeError | DataspaceError | DatasetError | StorageError
  | PropertyError | AttrError | FilterError | FileListError | RefError
  | VirtualFileError | TSTError | RSError | ErrorError | SkipListError

text \<open>The built-in Python exception classes the module refers to.\<close>

datatype py_class =
    IOError | ValueError | NotImplementedError | KeyError | TypeError | RuntimeError

text \<open>
  An exception class handed to the interpreter: a class of the \<^verbatim>\<open>H5Error\<close> family,
  a built-in class, or a class generated from one of each.
\<close>

datatype exc_class =
    Major h5_class
  | Builtin py_class
  | Generated h5_class py_class

text \<open>
  Modelled from the spec: \<^verbatim>\<open>_stub.generate_class\<close> belongs to a module that is not
  among the sources. The spec describes its result as a kind with two orthogonal axes,
  the category of the major class and the refinement of the minor class, both carried
  by the composed kind.
\<close>

definition generate_class :: "h5_class \<Rightarrow> py_class \<Rightarrow> exc_class" where
  "generate_class maj_class min_class = Generated maj_class min_class"

fun category :: "exc_class \<Rightarrow> h5_class option" where
  "category (Major c) = Some c"
| "category (Builtin b) = None"
| "category (Generated c b) = Some c"

fun refinement :: "exc_class \<Rightarrow> py_class option" where
  "refinement (Major c) = None"
| "refinement (Builtin b) = Some b"
| "refinement (Generated c b) = Some b"

subsection \<open>The three lookup tables\<close>

definition major_table :: "H5E_major_t \<rightharpoonup> h5_class" where
  "major_table = map_of
    [(H5E_ARGS, ArgsError),
     (H5E_RESOURCE, ResourceError),
     (H5E_INTERNAL, InternalError),
     (H5E_FILE, FileError),
     (H5E_IO, LowLevelIOError),
     (H5E_FUNC, FuncError),
     (H5E_ATOM, AtomError),
     (H5E_CACHE, CacheError),
     (H5E_BTREE, BtreeError),
     (H5E_SYM, SymbolError),
     (H5E_HEAP, HeapError),
     (H5E_OHDR, ObjectHeaderError),
     (H5E_DATATYPE, DatatypeError),
     (H5E_DATASPACE, DataspaceError),
     (H5E_DATASET, DatasetError),
     (H5E_STORAGE, StorageError),
     (H5E_PLIST, PropertyError),
     (H5E_ATTR, AttrError),
     (H5E_PLINE, FilterError),
     (H5E_EFL, FileListError),
     (H5E_REFERENCE, RefError),
     (H5E_VFL, VirtualFileError),
     (H5E_TST, TSTError),
     (H5E_RS, RSError),
     (H5E_ERROR, ErrorError),
     (H5E_SLIST, SkipListError)]"

definition minor_table :: "H5E_minor_t \<rightharpoonup> py_class" where
  "minor_table = map_of
    [(H5E_SEEKERROR, IOError),
     (H5E_READERROR, IOError),
     (H5E_WRITEERROR, IOError),
     (H5E_CLOSEERROR, IOError),
     (H5E_OVERFLOW, IOError),
     (H5E_FCNTL, IOError),
     (H5E_NOFILTER, IOError),
     (H5E_CALLBACK, IOError),
     (H5E_CANAPPLY, IOError),
     (H5E_SETLOCAL, IOError),
     (H5E_NOENCODER, IOError),
     (H5E_FILEEXISTS, ValueError),
     (H5E_FILEOPEN, ValueError),
     (H5E_NOTHDF5, ValueError),
     (H5E_BADFILE, ValueError),
     (H5E_BADATOM, ValueError),
     (H5E_BADGROUP, ValueError),
     (H5E_BADSELECT, ValueError),
     (H5E_UNINITIALIZED, ValueError),
     (H5E_UNSUPPORTED, NotImplementedError),
     (H5E_NOTFOUND, KeyError),
     (H5E_CANTINSERT, ValueError),
     (H5E_BADTYPE, TypeError),
     (H5E_BADRANGE, ValueError),
     (H5E_BADVALUE, ValueError),
     (H5E_EXISTS, ValueError),
     (H5E_CANTCONVERT, TypeError)]"

definition exact_table :: "H5E_major_t \<times> H5E_minor_t \<rightharpoonup> py_class" where
  "exact_table = map_of
    [((H5E_CACHE, H5E_BADVALUE), IOError),
     ((H5E_RESOURCE, H5E_CANTINIT), IOError),
     ((H5E_INTERNAL, H5E_SYSERRSTR), IOError)]"

section \<open>Error stack inspection\<close>

text \<open>
  The fields of the library's \<^verbatim>\<open>H5E_error_t\<close> structure that the module reads. The
  wrapper class \<^verbatim>\<open>ErrorStackElement\<close> holds one such structure in its member \<^verbatim>\<open>e\<close>.
\<close>

record H5E_error_t =
  e_maj_num :: H5E_major_t
  e_min_num :: H5E_minor_t
  e_func_name :: string
  e_desc :: string

type_synonym ErrorStackElement = H5E_error_t

text \<open>
  The library's description functions \<^verbatim>\<open>H5Eget_major\<close> and \<^verbatim>\<open>H5Eget_minor\<close> are
  external; the model takes them as given.
\<close>

record hdf5 =
  H5Eget_major :: "H5E_major_t \<Rightarrow> string"
  H5Eget_minor :: "H5E_minor_t \<Rightarrow> string"

text \<open>
  \<^verbatim>\<open>str.capitalize()\<close> on a byte string: the first character in upper case, every
  other character in lower case. Only the ASCII letters have a case.
\<close>

definition ascii_lowercase :: string where
  "ascii_lowercase = ''abcdefghijklmnopqrstuvwxyz''"

definition ascii_uppercase :: string where
  "ascii_uppercase = ''ABCDEFGHIJKLMNOPQRSTUVWXYZ''"

definition upper_char :: "char \<Rightarrow> char" where
  "upper_char c =
     (case map_of (zip ascii_lowercase ascii_uppercase) c of Some u \<Rightarrow> u | None \<Rightarrow> c)"

definition lower_char :: "char \<Rightarrow> char" where
  "lower_char c =
     (case map_of (zip ascii_uppercase ascii_lowercase) c of Some l \<Rightarrow> l | None \<Rightarrow> c)"

fun capitalize :: "string \<Rightarrow> string" where
  "capitalize [] = []"
| "capitalize (c # cs) = upper_char c # map lower_char cs"

definition func_name :: "ErrorStackElement \<Rightarrow> string" where
  "func_name self = e_func_name self"

definition desc :: "ErrorStackElement \<Rightarrow> string" where
  "desc self = (let s = e_desc self in capitalize s)"

definition code :: "ErrorStackElement \<Rightarrow> H5E_major_t \<times> H5E_minor_t" where
  "code self = (e_maj_num self, e_min_num self)"

definition code_desc :: "hdf5 \<Rightarrow> ErrorStackElement \<Rightarrow> string \<times> string" where
  "code_desc lib self = (H5Eget_major lib (e_maj_num self), H5Eget_minor lib (e_min_num self))"

definition get_major :: "hdf5 \<Rightarrow> H5E_major_t \<Rightarrow> string" where
  "get_major lib c = H5Eget_major lib c"

definition get_minor :: "hdf5 \<Rightarrow> H5E_minor_t \<Rightarrow> string" where
  "get_minor lib c = H5Eget_minor lib c"

text \<open>The module's global state: the flag \<^verbatim>\<open>_verbose\<close>, initially false.\<close>

record h5e_globals =
  verbose_flag :: bool

definition initial_globals :: h5e_globals where
  "initial_globals = \<lparr>verbose_flag = False\<rparr>"

definition verbose :: "bool \<Rightarrow> h5e_globals \<Rightarrow> h5e_globals" where
  "verbose v g = g\<lparr>verbose_flag := v\<rparr>"

text \<open>The decimal rendering of a list index, as \<^verbatim>\<open>%d\<close> prints it.\<close>

definition digits :: string where
  "digits = ''0123456789''"

function str_of_nat :: "nat \<Rightarrow> string" where
  "str_of_nat n =
     (if n < 10 then [digits ! n] else str_of_nat (n div 10) @ [digits ! (n mod 10)])"
  by pat_completeness auto
termination
  by (relation "measure id") auto

declare str_of_nat.simps [simp del]

text \<open>\<^verbatim>\<open>ErrorStack.__str__\<close>: the loop over \<^verbatim>\<open>enumerate(self)\<close> extends the string.\<close>

definition str_step :: "hdf5 \<Rightarrow> string \<Rightarrow> nat \<times> ErrorStackElement \<Rightarrow> string" where
  "str_step lib s p =
     (case p of (idx, el) \<Rightarrow>
        (s @ ''\<newline>    '' @ str_of_nat idx @ '': \"'' @ desc el @ ''\" at '' @ func_name el)
          @ ''\<newline>        '' @ fst (code_desc lib el) @ '' :: '' @ snd (code_desc lib el))"

definition ErrorStack_str :: "hdf5 \<Rightarrow> ErrorStackElement list \<Rightarrow> string" where
  "ErrorStack_str lib self =
     (if length self = 0 then ''No HDF5 error recorded''
      else foldl (str_step lib) ''HDF5 Error Stack:'' (enumerate 0 self))"

text \<open>\<^verbatim>\<open>ErrorStack.get_exc_msg\<close>: the class and message of the current error, if any.\<close>

definition get_exc_msg ::
  "hdf5 \<Rightarrow> h5e_globals \<Rightarrow> ErrorStackElement list \<Rightarrow> (exc_class \<times> string) option" where
  "get_exc_msg lib g self =
     (case self of
        [] \<Rightarrow> None
      | first # rest \<Rightarrow>
          (case code first of (major, minor) \<Rightarrow>
             let maj_class = (case major_table major of Some c \<Rightarrow> c | None \<Rightarrow> H5Error);
                 min_class = exact_table (major, minor);
                 min_class = (case min_class of None \<Rightarrow> minor_table minor | Some c \<Rightarrow> Some c);
                 exc = (case min_class of
                          None \<Rightarrow> Major maj_class
                        | Some c \<Rightarrow> generate_class maj_class c);
                 msg = desc first @ '' ('' @ fst (code_desc lib first) @ '': ''
                         @ snd (code_desc lib first) @ '')'';
                 msg = (if verbose_flag g then msg @ ''\<newline>'' @ ErrorStack_str lib self
                        else msg)
             in Some (exc, msg)))"

text \<open>
  \<^verbatim>\<open>walk_cb\<close> appends the record it is handed to the stack and returns 0. The library's
  \<^verbatim>\<open>H5Ewalk\<close> is external: it is represented by the records \<open>walked\<close> that it hands to
  the callback for the direction \<^verbatim>\<open>H5E_WALK_UPWARD\<close>, in the order in which it does,
  each with its position. How that order relates to the order in which the library
  recorded the frames is the library's own matter and is left open here.
\<close>

definition walk_cb ::
  "nat \<Rightarrow> H5E_error_t \<Rightarrow> ErrorStackElement list \<Rightarrow> int \<times> ErrorStackElement list" where
  "walk_cb n err_desc stack = (0, stack @ [err_desc])"

definition H5Ewalk ::
  "(nat \<Rightarrow> H5E_error_t \<Rightarrow> 's \<Rightarrow> int \<times> 's) \<Rightarrow> H5E_error_t list \<Rightarrow> 's \<Rightarrow> 's" where
  "H5Ewalk cb walked data = foldl (\<lambda>d (n, err). snd (cb n err d)) data (enumerate 0 walked)"

definition ErrorStack :: "ErrorStackElement list \<Rightarrow> H5E_error_t list \<Rightarrow> ErrorStackElement list" where
  "ErrorStack args walked = H5Ewalk walk_cb walked args"

text \<open>
  The interpreter's error indicator, set by \<^verbatim>\<open>PyErr_SetString\<close>, and the callback
  that translates the library's stack into a pending Python exception.
\<close>

record py_thread =
  cur_exc :: "(exc_class \<times> string) option"

definition PyErr_SetString :: "exc_class \<Rightarrow> string \<Rightarrow> py_thread \<Rightarrow> py_thread" where
  "PyErr_SetString exc msg py = py\<lparr>cur_exc := Some (exc, msg)\<rparr>"

definition err_callback ::
  "hdf5 \<Rightarrow> h5e_globals \<Rightarrow> H5E_error_t list \<Rightarrow> py_thread \<Rightarrow> int \<times> py_thread" where
  "err_callback lib g walked py =
     (let stack = ErrorStack [] walked;
          a = get_exc_msg lib g stack;
          (exc, msg) = (case a of
                          None \<Rightarrow> (Builtin RuntimeError, ''No HDF5 exception information found'')
                        | Some p \<Rightarrow> p)
      in (1, PyErr_SetString exc msg py))"

section \<open>Registration of the callback\<close>

text \<open>
  A callback installed with the library: the module's \<^verbatim>\<open>err_callback\<close> or any other
  function, together with its client data (\<^verbatim>\<open>NULL\<close> is \<open>None\<close>). The library keeps
  one such slot for each thread.
\<close>

datatype H5E_auto_t = Err_callback | Other_callback nat

type_synonym thread = nat

type_synonym auto_slots = "thread \<rightharpoonup> H5E_auto_t \<times> nat option"

text \<open>
  Modelled from the spec: \<^verbatim>\<open>H5Eset_auto\<close> is a function of the wrapped library and
  is not among the sources. The spec describes registration as installing the callback
  in state that is global to one thread, to be invoked by any lower-level failure.
\<close>

definition H5Eset_auto ::
  "thread \<Rightarrow> H5E_auto_t \<Rightarrow> nat option \<Rightarrow> auto_slots \<Rightarrow> int \<times> auto_slots" where
  "H5Eset_auto t func client_data slots = (0, slots(t \<mapsto> (func, client_data)))"

text \<open>
  Modelled from the spec: the library's dispatch of a failure on thread \<open>t\<close> to the
  callback installed for that thread is not among the sources either. A failure whose
  frames are \<open>walked\<close> invokes the installed callback; with no callback of this module
  installed the interpreter's state is left alone.
\<close>

definition on_failure ::
  "hdf5 \<Rightarrow> h5e_globals \<Rightarrow> auto_slots \<Rightarrow> thread \<Rightarrow> H5E_error_t list \<Rightarrow> py_thread \<Rightarrow> py_thread" where
  "on_failure lib g slots t walked py =
     (case slots t of
        Some (Err_callback, client_data) \<Rightarrow> snd (err_callback lib g walked py)
      | _ \<Rightarrow> py)"

text \<open>\<^verbatim>\<open>register_thread\<close>, called on thread \<open>t\<close>: raises or returns 0.\<close>

definition register_thread ::
  "thread \<Rightarrow> auto_slots \<Rightarrow> (exc_class \<times> string + int) \<times> auto_slots" where
  "register_thread t slots =
     (case H5Eset_auto t Err_callback None slots of (r, slots') \<Rightarrow>
        if r < 0
        then (Inl (Builtin RuntimeError, ''Failed to register HDF5 exception callback''), slots')
        else (Inr 0, slots'))"

section \<open>Groups, their members and attributes\<close>

text \<open>
  The cross-cutting refinement tags of the spec's error taxonomy.
\<close>

datatype refinement_tag = IOFailure | NotFound | AlreadyExists | BadType | BadValue | Unsupported

text \<open>
  Modelled from the spec: the group hierarchy (\<^verbatim>\<open>create_group\<close>,
  \<^verbatim>\<open>create_dataset\<close>, the \<^verbatim>\<open>attrs\<close> view) is implemented by the high-level part of
  the package and by the wrapped library, neither of which is among the sources; only
  the quick-start guide shows it in use. Following the spec, a group is a container of
  child groups and datasets keyed by name, unique among its direct children, and both
  groups and datasets hold attributes keyed by name. A dataset's type, dataspace and
  filter list are the parameter \<open>'d\<close>, an attribute's value is \<open>'v\<close>. Names are single
  path segments.
\<close>

datatype ('d, 'v) group =
    Group (children: "string \<rightharpoonup> ('d, 'v) member") (attrs: "string \<rightharpoonup> 'v")
and ('d, 'v) member =
    SubGroup "('d, 'v) group"
  | Dataset 'd "string \<rightharpoonup> 'v"

text \<open>
  Modelled from the spec: creation fails with a "name already exists" error if the name
  is already a direct child of the parent, with no implicit overwrite; otherwise the new
  member is linked under that name. The result is the outcome and the parent afterwards.
\<close>

definition create_member ::
  "('d, 'v) group \<Rightarrow> string \<Rightarrow> ('d, 'v) member
     \<Rightarrow> (refinement_tag + ('d, 'v) member) \<times> ('d, 'v) group" where
  "create_member parent name new =
     (case children parent name of
        Some existing \<Rightarrow> (Inl AlreadyExists, parent)
      | None \<Rightarrow> (Inr new, Group ((children parent)(name \<mapsto> new)) (attrs parent)))"

definition create_group ::
  "('d, 'v) group \<Rightarrow> string \<Rightarrow> (refinement_tag + ('d, 'v) member) \<times> ('d, 'v) group" where
  "create_group parent name = create_member parent name (SubGroup (Group Map.empty Map.empty))"

definition create_dataset ::
  "('d, 'v) group \<Rightarrow> string \<Rightarrow> 'd \<Rightarrow> (refinement_tag + ('d, 'v) member) \<times> ('d, 'v) group" where
  "create_dataset parent name d = create_member parent name (Dataset d Map.empty)"

text \<open>
  Modelled from the spec: \<^verbatim>\<open>set(name, value)\<close> of the \<^verbatim>\<open>attrs\<close> view, absent from
  the sources like the rest of the hierarchy, overwrites unconditionally.
\<close>

definition attrs_set ::
  "(string \<rightharpoonup> 'v) \<Rightarrow> string \<Rightarrow> 'v \<Rightarrow> (refinement_tag + unit) \<times> (string \<rightharpoonup> 'v)" where
  "attrs_set a name v = (Inr (), a(name \<mapsto> v))"

section \<open>Concrete inputs\<close>

text \<open>
  The descriptions the quick-start guide shows for the symbol-table major code and the
  "already exists" minor code; every other code is described by the empty string here.
\<close>

definition quickstart_lib :: hdf5 where
  "quickstart_lib =
     \<lparr>H5Eget_major = (\<lambda>c. if c = H5E_SYM then ''Symbol table''
                           else if c = H5E_FILE then ''File interface'' else []),
      H5Eget_minor = (\<lambda>c. if c = H5E_EXISTS then ''Object already exists''
                           else if c = H5E_NOTHDF5 then ''Not an HDF5 file'' else [])\<rparr>"

definition frame :: "H5E_major_t \<Rightarrow> H5E_minor_t \<Rightarrow> string \<Rightarrow> string \<Rightarrow> H5E_error_t" where
  "frame major minor fn d = \<lparr>e_maj_num = major, e_min_num = minor, e_func_name = fn, e_desc = d\<rparr>"

text \<open>
  The reading of "the description with its first character capitalized" that leaves every
  other character as it is, for comparison with \<open>desc\<close>.
\<close>

definition first_char_capitalized :: "string \<Rightarrow> string" where
  "first_char_capitalized s = (case s of [] \<Rightarrow> [] | c # cs \<Rightarrow> upper_char c # cs)"

section \<open>Auxiliary facts\<close>

lemmas case_eval = upper_char_def lower_char_def ascii_lowercase_def ascii_uppercase_def

lemmas table_eval = major_table_def minor_table_def exact_table_def frame_def

lemma foldl_str_step:
  "foldl (str_step lib) s ps = s @ concat (map (str_step lib []) ps)"
proof (induction ps arbitrary: s)
  case Nil
  show ?case by simp
next
  case (Cons p ps)
  have step: "str_step lib s p = s @ str_step lib [] p"
    by (cases p) (simp add: str_step_def)
  have "foldl (str_step lib) s (p # ps) = foldl (str_step lib) (str_step lib s p) ps"
    by simp
  also have "\<dots> = str_step lib s p @ concat (map (str_step lib []) ps)"
    by (rule Cons.IH)
  also have "\<dots> = s @ concat (map (str_step lib []) (p # ps))"
    by (simp add: step)
  finally show ?case .
qed

lemma ErrorStack_walk: "ErrorStack args walked = args @ walked"
proof -
  have "foldl (\<lambda>d (n, err). snd (walk_cb n err d)) d ps = d @ map snd ps" for d ps
    by (induction ps arbitrary: d) (auto simp: walk_cb_def)
  then show ?thesis
    by (simp add: ErrorStack_def H5Ewalk_def)
qed

text \<open>
  The stack built by the constructor holds the walked records in the order of the walk,
  and the trace lists the frames of the stack front to back.
\<close>

lemma ErrorStack_str_order:
  "ErrorStack_str lib (ErrorStack [] walked) =
     (if walked = [] then ''No HDF5 error recorded''
      else ''HDF5 Error Stack:'' @ concat (map (str_step lib []) (enumerate 0 walked)))"
  unfolding ErrorStack_walk ErrorStack_str_def
  by (simp only: foldl_str_step) simp

lemma str_of_nat_digit: "n < 10 \<Longrightarrow> str_of_nat n = [digits ! n]"
  by (simp add: str_of_nat.simps)

section \<open>Classification of the current error\<close>

text \<open>
  C1. \<^verbatim>\<open>get_exc_msg\<close> resolves the class from the first frame of the stack. The major
  code always supplies the category (\<^verbatim>\<open>H5Error\<close> for a code outside the major table).
  An entry of the exact table for the pair (major, minor) decides the refinement whatever
  the minor table says; without such an entry the minor table decides it. With a
  refinement the class is the one generated from the major class and the refinement and
  carries both; with none it is the major class alone.
\<close>

theorem get_exc_msg_two_level_lookup:
  "\<exists>exc msg. get_exc_msg lib g (first # rest) = Some (exc, msg) \<and>
     category exc = Some (case major_table (e_maj_num first) of Some c \<Rightarrow> c | None \<Rightarrow> H5Error) \<and>
     (\<forall>r. exact_table (e_maj_num first, e_min_num first) = Some r \<longrightarrow>
          exc = generate_class (case major_table (e_maj_num first) of Some c \<Rightarrow> c | None \<Rightarrow> H5Error) r \<and>
          refinement exc = Some r) \<and>
     (\<forall>r. exact_table (e_maj_num first, e_min_num first) = None \<longrightarrow>
          minor_table (e_min_num first) = Some r \<longrightarrow>
          exc = generate_class (case major_table (e_maj_num first) of Some c \<Rightarrow> c | None \<Rightarrow> H5Error) r \<and>
          refinement exc = Some r) \<and>
     (exact_table (e_maj_num first, e_min_num first) = None \<longrightarrow>
          minor_table (e_min_num first) = None \<longrightarrow>
          exc = Major (case major_table (e_maj_num first) of Some c \<Rightarrow> c | None \<Rightarrow> H5Error))"
  by (auto simp: get_exc_msg_def code_def Let_def generate_class_def split: option.splits)

text \<open>
  A cache error with the bad-value minor code is an \<^verbatim>\<open>IOError\<close> by the exact table,
  although the minor table alone would make it a \<^verbatim>\<open>ValueError\<close>; a symbol-table
  error with the "exists" minor code is refined by the minor table; a pair in neither
  table, and a pair of codes the module does not know, give the major class alone.
\<close>

theorem get_exc_msg_two_level_lookup_witness:
  "exact_table (H5E_CACHE, H5E_BADVALUE) = Some IOError \<and>
   minor_table H5E_BADVALUE = Some ValueError \<and>
   (\<exists>msg. get_exc_msg quickstart_lib initial_globals
      [frame H5E_CACHE H5E_BADVALUE ''H5Gcreate'' ''unable to create group'']
        = Some (Generated CacheError IOError, msg)) \<and>
   exact_table (H5E_SYM, H5E_EXISTS) = None \<and>
   minor_table H5E_EXISTS = Some ValueError \<and>
   (\<exists>msg. get_exc_msg quickstart_lib initial_globals
      [frame H5E_SYM H5E_EXISTS ''H5Gcreate'' ''name already exists'']
        = Some (Generated SymbolError ValueError, msg)) \<and>
   exact_table (H5E_FUNC, H5E_CANTINIT) = None \<and>
   minor_table H5E_CANTINIT = None \<and>
   (\<exists>msg. get_exc_msg quickstart_lib initial_globals
      [frame H5E_FUNC H5E_CANTINIT ''H5Fopen'' ''unable to initialize'']
        = Some (Major FuncError, msg)) \<and>
   (\<exists>msg. get_exc_msg quickstart_lib initial_globals
      [frame (H5E_MAJOR_OTHER 0) (H5E_MINOR_OTHER 0) [] []]
        = Some (Major H5Error, msg))"
proof -
  have a: "\<exists>msg. get_exc_msg quickstart_lib initial_globals
      [frame H5E_CACHE H5E_BADVALUE ''H5Gcreate'' ''unable to create group'']
        = Some (Generated CacheError IOError, msg)"
    using get_exc_msg_two_level_lookup [of quickstart_lib initial_globals
        "frame H5E_CACHE H5E_BADVALUE ''H5Gcreate'' ''unable to create group''" "[]"]
    by (auto simp: table_eval generate_class_def)
  have b: "\<exists>msg. get_exc_msg quickstart_lib initial_globals
      [frame H5E_SYM H5E_EXISTS ''H5Gcreate'' ''name already exists'']
        = Some (Generated SymbolError ValueError, msg)"
    using get_exc_msg_two_level_lookup [of quickstart_lib initial_globals
        "frame H5E_SYM H5E_EXISTS ''H5Gcreate'' ''name already exists''" "[]"]
    by (auto simp: table_eval generate_class_def)
  have c: "\<exists>msg. get_exc_msg quickstart_lib initial_globals
      [frame H5E_FUNC H5E_CANTINIT ''H5Fopen'' ''unable to initialize'']
        = Some (Major FuncError, msg)"
    using get_exc_msg_two_level_lookup [of quickstart_lib initial_globals
        "frame H5E_FUNC H5E_CANTINIT ''H5Fopen'' ''unable to initialize''" "[]"]
    by (auto simp: table_eval)
  have d: "\<exists>msg. get_exc_msg quickstart_lib initial_globals
      [frame (H5E_MAJOR_OTHER 0) (H5E_MINOR_OTHER 0) [] []]
        = Some (Major H5Error, msg)"
    using get_exc_msg_two_level_lookup [of quickstart_lib initial_globals
        "frame (H5E_MAJOR_OTHER 0) (H5E_MINOR_OTHER 0) [] []" "[]"]
    by (auto simp: table_eval)
  from a b c d show ?thesis
    by (simp add: table_eval)
qed

text \<open>
  C2. For every error stack, \<^verbatim>\<open>get_exc_msg\<close> returns \<^verbatim>\<open>None\<close> if and only if the
  stack holds no frame; on a stack with at least one frame it returns a pair of a class
  and a message.
\<close>

theorem get_exc_msg_None_iff_empty:
  "(get_exc_msg lib g self = None) = (self = []) \<and>
   (self \<noteq> [] \<longrightarrow> (\<exists>exc msg. get_exc_msg lib g self = Some (exc, msg)))"
  by (cases self) (auto simp: get_exc_msg_def Let_def split: prod.splits)

theorem get_exc_msg_None_iff_empty_witness:
  "get_exc_msg quickstart_lib initial_globals [] = None \<and>
   (\<exists>exc msg. get_exc_msg quickstart_lib initial_globals
      [frame H5E_SYM H5E_EXISTS ''H5Gcreate'' ''name already exists''] = Some (exc, msg))"
  using get_exc_msg_None_iff_empty [of quickstart_lib initial_globals "[]"]
    get_exc_msg_None_iff_empty [of quickstart_lib initial_globals
      "[frame H5E_SYM H5E_EXISTS ''H5Gcreate'' ''name already exists'']"]
  by simp

text \<open>
  C3. On a stack with at least one frame the message is the description of the first
  frame, a space, and in parentheses the major description, a colon and the minor
  description. With the verbose flag set, a line break and the trace follow: the heading
  and, for each frame in the order of the stack, a line with the index, the quoted
  description and the function name, then a line with the major and minor descriptions
  separated by a double colon.
\<close>

theorem get_exc_msg_message:
  "map_option snd (get_exc_msg lib (verbose v g) (first # rest)) = Some
     (desc first @ '' ('' @ H5Eget_major lib (e_maj_num first) @ '': ''
        @ H5Eget_minor lib (e_min_num first) @ '')''
        @ (if v
           then ''\<newline>HDF5 Error Stack:''
                  @ concat (map (\<lambda>(idx, el).
                      ''\<newline>    '' @ str_of_nat idx @ '': \"'' @ desc el @ ''\" at '' @ func_name el
                        @ ''\<newline>        '' @ H5Eget_major lib (e_maj_num el) @ '' :: ''
                        @ H5Eget_minor lib (e_min_num el))
                      (enumerate 0 (first # rest)))
           else []))"
proof -
  have line: "str_step lib [] p =
      (case p of (idx, el) \<Rightarrow>
         ''\<newline>    '' @ str_of_nat idx @ '': \"'' @ desc el @ ''\" at '' @ func_name el
           @ ''\<newline>        '' @ H5Eget_major lib (e_maj_num el) @ '' :: ''
           @ H5Eget_minor lib (e_min_num el))" for p
    by (cases p) (simp add: str_step_def code_desc_def)
  have str: "ErrorStack_str lib (first # rest) =
      ''HDF5 Error Stack:'' @ concat (map (str_step lib []) (enumerate 0 (first # rest)))"
    unfolding ErrorStack_str_def by (simp only: foldl_str_step) simp
  have "map (str_step lib []) ps = map (\<lambda>(idx, el).
         ''\<newline>    '' @ str_of_nat idx @ '': \"'' @ desc el @ ''\" at '' @ func_name el
           @ ''\<newline>        '' @ H5Eget_major lib (e_maj_num el) @ '' :: ''
           @ H5Eget_minor lib (e_min_num el)) ps" for ps
    by (rule map_cong) (auto simp: line)
  with str show ?thesis
    by (simp add: get_exc_msg_def verbose_def code_def code_desc_def Let_def del: enumerate_simps)
qed

text \<open>
  The message of the quick-start guide, and the same error with the trace of two frames.
\<close>

theorem get_exc_msg_message_witness:
  "map_option snd (get_exc_msg quickstart_lib (verbose False initial_globals)
      [frame H5E_SYM H5E_EXISTS ''H5G_insert'' ''name already exists'',
       frame H5E_SYM H5E_CANTINIT ''H5Gcreate'' ''unable to create group''])
     = Some ''Name already exists (Symbol table: Object already exists)'' \<and>
   map_option snd (get_exc_msg quickstart_lib (verbose True initial_globals)
      [frame H5E_SYM H5E_EXISTS ''H5G_insert'' ''name already exists'',
       frame H5E_SYM H5E_CANTINIT ''H5Gcreate'' ''unable to create group''])
     = Some (''Name already exists (Symbol table: Object already exists)''
          @ ''\<newline>HDF5 Error Stack:''
          @ ''\<newline>    0: \"Name already exists\" at H5G_insert''
          @ ''\<newline>        Symbol table :: Object already exists''
          @ ''\<newline>    1: \"Unable to create group\" at H5Gcreate''
          @ ''\<newline>        Symbol table :: '')"
  using get_exc_msg_message [of quickstart_lib False initial_globals
      "frame H5E_SYM H5E_EXISTS ''H5G_insert'' ''name already exists''"
      "[frame H5E_SYM H5E_CANTINIT ''H5Gcreate'' ''unable to create group'']"]
    get_exc_msg_message [of quickstart_lib True initial_globals
      "frame H5E_SYM H5E_EXISTS ''H5G_insert'' ''name already exists''"
      "[frame H5E_SYM H5E_CANTINIT ''H5Gcreate'' ''unable to create group'']"]
  by (simp add: frame_def quickstart_lib_def desc_def func_name_def case_eval
      str_of_nat_digit digits_def)

text \<open>
  C9. When the callback fires and the walk of the library's stack yields no frame, it
  sets a \<^verbatim>\<open>RuntimeError\<close> with the message "No HDF5 exception information found"; on
  every stack it returns 1 and leaves an exception pending.
\<close>

theorem err_callback_empty_stack:
  "err_callback lib g [] py =
     (1, py\<lparr>cur_exc := Some (Builtin RuntimeError, ''No HDF5 exception information found'')\<rparr>) \<and>
   fst (err_callback lib g walked py) = 1 \<and>
   cur_exc (snd (err_callback lib g walked py)) \<noteq> None"
  by (simp add: err_callback_def ErrorStack_walk get_exc_msg_def PyErr_SetString_def Let_def
      split: prod.splits option.splits list.splits)

theorem err_callback_empty_stack_witness:
  "err_callback quickstart_lib initial_globals [] \<lparr>cur_exc = None\<rparr> =
     (1, \<lparr>cur_exc = Some (Builtin RuntimeError, ''No HDF5 exception information found'')\<rparr>)"
  using err_callback_empty_stack [of quickstart_lib initial_globals "\<lparr>cur_exc = None\<rparr>" "[]"]
  by simp

section \<open>The description of a frame\<close>

text \<open>
  C10, as stated: the description of a frame is the library's description with its first
  character capitalized and nothing else changed. It fails for a description with an
  upper-case letter after the first character: \<^verbatim>\<open>capitalize\<close> puts those in lower
  case.
\<close>

theorem desc_first_char_only_counterexample:
  "desc (frame H5E_FILE H5E_NOTHDF5 ''H5Fopen'' ''not an HDF5 file'') = ''Not an hdf5 file'' \<and>
   first_char_capitalized ''not an HDF5 file'' = ''Not an HDF5 file'' \<and>
   desc (frame H5E_FILE H5E_NOTHDF5 ''H5Fopen'' ''not an HDF5 file'')
     \<noteq> first_char_capitalized (e_desc (frame H5E_FILE H5E_NOTHDF5 ''H5Fopen'' ''not an HDF5 file''))"
  by (simp add: desc_def frame_def first_char_capitalized_def case_eval)

text \<open>
  C10, amended. The description of a frame has the length of the library's description;
  its first character is that of the library's description in upper case and every
  other character is the corresponding one in lower case. It is the library's
  description with only the first character capitalized exactly when no later character
  changes in lower case. Every message of \<^verbatim>\<open>get_exc_msg\<close> begins with this description
  of the first frame.
\<close>

theorem desc_capitalize:
  "length (desc el) = length (e_desc el) \<and>
   (\<forall>i < length (e_desc el). desc el ! i =
      (if i = 0 then upper_char (e_desc el ! i) else lower_char (e_desc el ! i))) \<and>
   (desc el = first_char_capitalized (e_desc el)) = (\<forall>c \<in> set (tl (e_desc el)). lower_char c = c) \<and>
   (\<exists>exc tail. get_exc_msg lib g (el # rest) = Some (exc, desc el @ tail))"
proof -
  have len: "length (desc el) = length (e_desc el)"
    by (cases "e_desc el") (simp_all add: desc_def)
  have nth: "\<forall>i < length (e_desc el). desc el ! i =
      (if i = 0 then upper_char (e_desc el ! i) else lower_char (e_desc el ! i))"
    by (cases "e_desc el") (auto simp: desc_def nth_Cons split: nat.splits)
  have eq: "(desc el = first_char_capitalized (e_desc el))
      = (\<forall>c \<in> set (tl (e_desc el)). lower_char c = c)"
  proof (cases "e_desc el")
    case Nil
    then show ?thesis by (simp add: desc_def first_char_capitalized_def)
  next
    case (Cons c cs)
    have "(map lower_char cs = cs) = (\<forall>x \<in> set cs. lower_char x = x)"
      using map_eq_conv [of lower_char cs id] by simp
    with Cons show ?thesis by (simp add: desc_def first_char_capitalized_def)
  qed
  have msg: "\<exists>exc tail. get_exc_msg lib g (el # rest) = Some (exc, desc el @ tail)"
    by (simp add: get_exc_msg_def Let_def split: prod.splits)
  from len nth eq msg show ?thesis by blast
qed

theorem desc_capitalize_witness:
  "length (desc (frame H5E_FILE H5E_NOTHDF5 ''H5Fopen'' ''not an HDF5 file'')) = 16 \<and>
   desc (frame H5E_FILE H5E_NOTHDF5 ''H5Fopen'' ''not an HDF5 file'') ! 0 = CHR ''N'' \<and>
   desc (frame H5E_FILE H5E_NOTHDF5 ''H5Fopen'' ''not an HDF5 file'') ! 7 = CHR ''h'' \<and>
   desc (frame H5E_FILE H5E_NOTHDF5 ''H5Fopen'' ''not an HDF5 file'')
     \<noteq> first_char_capitalized ''not an HDF5 file'' \<and>
   desc (frame H5E_SYM H5E_EXISTS ''H5G_insert'' ''name already exists'')
     = first_char_capitalized ''name already exists'' \<and>
   (\<exists>exc tail. get_exc_msg quickstart_lib initial_globals
      [frame H5E_FILE H5E_NOTHDF5 ''H5Fopen'' ''not an HDF5 file'']
        = Some (exc, desc (frame H5E_FILE H5E_NOTHDF5 ''H5Fopen'' ''not an HDF5 file'') @ tail))"
proof -
  let ?el = "frame H5E_FILE H5E_NOTHDF5 ''H5Fopen'' ''not an HDF5 file''"
  let ?el2 = "frame H5E_SYM H5E_EXISTS ''H5G_insert'' ''name already exists''"
  note t1 = desc_capitalize [of ?el quickstart_lib initial_globals "[]"]
  note t2 = desc_capitalize [of ?el2 quickstart_lib initial_globals "[]"]
  have raw: "e_desc ?el = ''not an HDF5 file''" "e_desc ?el2 = ''name already exists''"
    by (simp_all add: frame_def)
  have len: "length (desc ?el) = 16"
    using t1 by (simp add: raw)
  have nth: "\<forall>i < 16. desc ?el ! i =
      (if i = 0 then upper_char (''not an HDF5 file'' ! i)
       else lower_char (''not an HDF5 file'' ! i))"
    using t1 by (simp add: raw)
  have n0: "desc ?el ! 0 = CHR ''N''"
    using nth [rule_format, of 0] by (simp add: case_eval)
  have n7: "desc ?el ! 7 = CHR ''h''"
    using nth [rule_format, of 7] by (simp add: case_eval)
  have ne: "desc ?el \<noteq> first_char_capitalized ''not an HDF5 file''"
    using t1 by (simp add: raw case_eval)
  have eq: "desc ?el2 = first_char_capitalized ''name already exists''"
    using t2 by (simp add: raw case_eval)
  have msg: "\<exists>exc tail. get_exc_msg quickstart_lib initial_globals [?el]
      = Some (exc, desc ?el @ tail)"
    using t1 by blast
  from len n0 n7 ne eq msg show ?thesis by blast
qed

section \<open>Registration\<close>

text \<open>
  C5. For every thread, \<^verbatim>\<open>register_thread\<close> returns 0; a further call returns the same
  and leaves the slots as they were after the first; after any number of calls the
  callback installed for the thread is \<^verbatim>\<open>err_callback\<close> with no client data, and a
  failure on the thread is reported exactly as after a single call.
\<close>

theorem register_thread_idempotent:
  "fst (register_thread t slots) = Inr 0 \<and>
   register_thread t (snd (register_thread t slots)) = register_thread t slots \<and>
   ((\<lambda>s. snd (register_thread t s)) ^^ Suc n) slots = snd (register_thread t slots) \<and>
   snd (register_thread t slots) t = Some (Err_callback, None) \<and>
   on_failure lib g (((\<lambda>s. snd (register_thread t s)) ^^ Suc n) slots) t walked py
     = on_failure lib g (snd (register_thread t slots)) t walked py"
proof -
  have once: "register_thread t s = (Inr 0, s(t \<mapsto> (Err_callback, None)))" for s
    by (simp add: register_thread_def H5Eset_auto_def)
  have rep: "((\<lambda>s. snd (register_thread t s)) ^^ Suc n) slots = slots(t \<mapsto> (Err_callback, None))"
  proof (induction n)
    case 0
    show ?case by (simp add: once)
  next
    case (Suc n)
    have "((\<lambda>s. snd (register_thread t s)) ^^ Suc (Suc n)) slots
        = snd (register_thread t (((\<lambda>s. snd (register_thread t s)) ^^ Suc n) slots))"
      by (simp only: funpow.simps o_apply)
    also have "\<dots> = snd (register_thread t (slots(t \<mapsto> (Err_callback, None))))"
      by (simp only: Suc.IH)
    also have "\<dots> = slots(t \<mapsto> (Err_callback, None))"
      by (simp only: once snd_conv fun_upd_upd)
    finally show ?case .
  qed
  show ?thesis
    by (simp only: rep) (simp add: once)
qed

theorem register_thread_idempotent_witness:
  "fst (register_thread 0 Map.empty) = Inr 0 \<and>
   register_thread 0 (snd (register_thread 0 Map.empty)) = register_thread 0 Map.empty \<and>
   ((\<lambda>s. snd (register_thread 0 s)) ^^ 3) Map.empty = snd (register_thread 0 Map.empty) \<and>
   snd (register_thread 0 Map.empty) 0 = Some (Err_callback, None)"
  using register_thread_idempotent
    [of 0 Map.empty 2 quickstart_lib initial_globals "[]" "\<lparr>cur_exc = None\<rparr>"]
  by (simp add: numeral_3_eq_3)

section \<open>Group members and attributes\<close>

text \<open>
  C7. For every group, \<^verbatim>\<open>create_group\<close> and \<^verbatim>\<open>create_dataset\<close> with a name that is
  already a direct child of the group fail with \<^verbatim>\<open>AlreadyExists\<close>, and the group, with
  its children and so the existing child, is afterwards what it was.
\<close>

theorem create_existing_name_fails:
  "children parent name = Some child \<Longrightarrow>
     create_group parent name = (Inl AlreadyExists, parent) \<and>
     create_dataset parent name d = (Inl AlreadyExists, parent) \<and>
     children (snd (create_group parent name)) name = Some child \<and>
     children (snd (create_dataset parent name d)) name = Some child \<and>
     children (snd (create_group parent name)) = children parent \<and>
     children (snd (create_dataset parent name d)) = children parent"
  by (simp add: create_group_def create_dataset_def create_member_def)

text \<open>The quick-start guide's second \<^verbatim>\<open>create_group("NewGroup")\<close>.\<close>

theorem create_existing_name_fails_witness:
  "children (snd (create_group (Group Map.empty Map.empty :: (unit, string) group) ''NewGroup''))
      ''NewGroup''
     = Some (SubGroup (Group Map.empty Map.empty)) \<and>
   create_group (snd (create_group (Group Map.empty Map.empty :: (unit, string) group) ''NewGroup''))
      ''NewGroup''
     = (Inl AlreadyExists, snd (create_group (Group Map.empty Map.empty) ''NewGroup'')) \<and>
   create_dataset (snd (create_group (Group Map.empty Map.empty :: (unit, string) group) ''NewGroup''))
      ''NewGroup'' ()
     = (Inl AlreadyExists, snd (create_group (Group Map.empty Map.empty) ''NewGroup'')) \<and>
   dom (children (snd (create_group
      (snd (create_group (Group Map.empty Map.empty :: (unit, string) group) ''NewGroup''))
      ''NewGroup'')))
     = {''NewGroup''}"
proof -
  let ?root = "Group Map.empty Map.empty :: (unit, string) group"
  let ?g = "snd (create_group ?root ''NewGroup'')"
  have c: "children ?g ''NewGroup'' = Some (SubGroup (Group Map.empty Map.empty))"
    by (simp add: create_group_def create_member_def)
  have d: "dom (children ?g) = {''NewGroup''}"
    by (simp add: create_group_def create_member_def)
  from create_existing_name_fails
      [of ?g "''NewGroup''" "SubGroup (Group Map.empty Map.empty)" "()"] c d
  show ?thesis
    by simp
qed

text \<open>
  C8. For every attribute view and every name that already has a value, \<^verbatim>\<open>set\<close>
  succeeds, never with \<^verbatim>\<open>AlreadyExists\<close>; afterwards the name has the new value, the
  set of names is the same and every other attribute is untouched.
\<close>

theorem attrs_set_overwrites:
  "a name = Some old \<Longrightarrow>
     fst (attrs_set a name v) = Inr () \<and>
     fst (attrs_set a name v) \<noteq> Inl AlreadyExists \<and>
     snd (attrs_set a name v) name = Some v \<and>
     dom (snd (attrs_set a name v)) = dom a \<and>
     (\<forall>other. other \<noteq> name \<longrightarrow> snd (attrs_set a name v) other = a other)"
  by (auto simp: attrs_set_def)

text \<open>The quick-start guide's overwriting of the attribute "Name".\<close>

theorem attrs_set_overwrites_witness:
  "snd (attrs_set Map.empty ''Name'' ''My Dataset'') ''Name'' = Some ''My Dataset'' \<and>
   fst (attrs_set (snd (attrs_set Map.empty ''Name'' ''My Dataset'')) ''Name'' ''New Name'')
     = Inr () \<and>
   snd (attrs_set (snd (attrs_set Map.empty ''Name'' ''My Dataset'')) ''Name'' ''New Name'') ''Name''
     = Some ''New Name'' \<and>
   dom (snd (attrs_set (snd (attrs_set Map.empty ''Name'' ''My Dataset'')) ''Name'' ''New Name''))
     = {''Name''}"
proof -
  let ?a = "snd (attrs_set Map.empty ''Name'' ''My Dataset'') :: string \<rightharpoonup> string"
  have old: "?a ''Name'' = Some ''My Dataset''"
    by (simp add: attrs_set_def)
  have d: "dom ?a = {''Name''}"
    by (simp add: attrs_set_def)
  from attrs_set_overwrites [of ?a "''Name''" "''My Dataset''" "''New Name''"] old d
  show ?thesis
    by simp
qed

end
